theory Spec2Isabelle
  imports Complex_Main "HOL-Library.Sublist"
begin

section \<open>Hydration reminder overlay: a model of drink\_reminder.py\<close>

text \<open>
  The development follows the Python source function by function. Python integers are
  unbounded and become \<^typ>\<open>int\<close>; \<open>//\<close> and \<open>%\<close> with a positive divisor agree
  with \<open>div\<close> and \<open>mod\<close> on \<^typ>\<open>int\<close>. Strings are \<^typ>\<open>string\<close>. What an operation
  reads from its surroundings (the clock, the random draw, the screen geometry, the size Qt
  gave the widget, the assets found on disk) is passed in explicitly.
\<close>

subsection \<open>Text helpers\<close>

text \<open>Decimal rendering of an integer, as an f-string does for \<open>{n}\<close>.\<close>

definition digit_char :: "nat \<Rightarrow> char" where
  "digit_char n = ''0123456789'' ! n"

fun str_nat :: "nat \<Rightarrow> string" where
  "str_nat n = (if n < 10 then [digit_char n] else str_nat (n div 10) @ [digit_char (n mod 10)])"

declare str_nat.simps [simp del]

definition str_int :: "int \<Rightarrow> string" where
  "str_int i = (if i < 0 then CHR ''-'' # str_nat (nat (- i)) else str_nat (nat i))"

text \<open>\<open>sep.join(parts)\<close>.\<close>

fun join :: "string \<Rightarrow> string list \<Rightarrow> string" where
  "join sep [] = []"
| "join sep [p] = p"
| "join sep (p # q # ps) = p @ sep @ join sep (q # ps)"

text \<open>\<open>sub in s\<close> on strings: \<open>sub\<close> occurs as a contiguous piece of \<open>s\<close>.\<close>

fun contains :: "string \<Rightarrow> string \<Rightarrow> bool" where
  "contains sub [] = (sub = [])"
| "contains sub (c # cs) = (prefix sub (c # cs) \<or> contains sub cs)"

subsection \<open>Duration formatting\<close>

definition format_interval :: "int \<Rightarrow> string" where
  "format_interval milliseconds =
     (let minutes_total = max 0 (milliseconds div 60000);
          hours = minutes_total div 60;
          minutes = minutes_total mod 60;
          parts = [];
          parts = (if hours \<noteq> 0
                   then parts @ [str_int hours @ '' hour'' @ (if hours \<noteq> 1 then ''s'' else '''')]
                   else parts);
          parts = (if minutes \<noteq> 0
                   then parts @ [str_int minutes @ '' minute'' @ (if minutes \<noteq> 1 then ''s'' else '''')]
                   else parts)
      in if parts = [] then ''less than a minute'' else join '' '' parts)"

definition format_short_duration :: "int \<Rightarrow> string" where
  "format_short_duration milliseconds =
     (if milliseconds \<le> 0 then ''now''
      else
        let seconds_total = milliseconds div 1000;
            hours = seconds_total div 3600;
            remainder = seconds_total mod 3600;
            minutes = remainder div 60;
            seconds = remainder mod 60;
            parts = [];
            parts = (if hours \<noteq> 0 then parts @ [str_int hours @ ''h''] else parts);
            parts = (if minutes \<noteq> 0 \<or> hours \<noteq> 0 then parts @ [str_int minutes @ ''m''] else parts);
            parts = (if hours = 0 then parts @ [str_int seconds @ ''s''] else parts)
        in join '' '' parts)"

subsection \<open>Python values read from the settings file\<close>

text \<open>
  \<open>AppConfig.from_dict\<close> receives what \<open>json.loads\<close> produced. A float is a finite
  rational, an infinity or NaN (\<open>json.loads\<close> accepts \<open>Infinity\<close>, \<open>NaN\<close> and literals
  such as \<open>1e999\<close>); every finite double is a rational, so the finite case covers them.
  A dict is an association list with string keys, read with \<^const>\<open>map_of\<close>.
\<close>

datatype pyfloat = Finite rat | PosInf | NegInf | NaN

datatype pyval =
    PNone
  | PBool bool
  | PInt int
  | PFloat pyfloat
  | PStr string
  | PList "pyval list"
  | PDict "(string \<times> pyval) list"

datatype error = TypeError | ValueError | OverflowError

text \<open>
  The parts of the Python runtime that are not written out here: parsing a string as an
  integer or a float (\<open>None\<close> is \<open>ValueError\<close>), rounding an integer to the nearest
  double (\<open>None\<close> is \<open>OverflowError\<close>, raised for an integer beyond the double range),
  \<open>str()\<close> of a float, list or dict, and the directory \<open>STORAGE_ASSETS_DIR\<close> found
  at import time.
\<close>

record runtime =
  parse_int :: "string \<Rightarrow> int option"
  parse_float :: "string \<Rightarrow> pyfloat option"
  float_of_int :: "int \<Rightarrow> pyfloat option"
  repr_of :: "pyval \<Rightarrow> string"
  STORAGE_ASSETS_DIR :: string

text \<open>\<open>int(v)\<close>: a float is truncated towards zero.\<close>

definition truncate :: "rat \<Rightarrow> int" where
  "truncate q = (if 0 \<le> q then \<lfloor>q\<rfloor> else \<lceil>q\<rceil>)"

fun py_int :: "runtime \<Rightarrow> pyval \<Rightarrow> error + int" where
  "py_int rt PNone = Inl TypeError"
| "py_int rt (PBool b) = Inr (if b then 1 else 0)"
| "py_int rt (PInt n) = Inr n"
| "py_int rt (PFloat (Finite q)) = Inr (truncate q)"
| "py_int rt (PFloat PosInf) = Inl OverflowError"
| "py_int rt (PFloat NegInf) = Inl OverflowError"
| "py_int rt (PFloat NaN) = Inl ValueError"
| "py_int rt (PStr s) = (case parse_int rt s of None \<Rightarrow> Inl ValueError | Some n \<Rightarrow> Inr n)"
| "py_int rt (PList vs) = Inl TypeError"
| "py_int rt (PDict kvs) = Inl TypeError"

text \<open>\<open>float(v)\<close>.\<close>

fun py_float :: "runtime \<Rightarrow> pyval \<Rightarrow> error + pyfloat" where
  "py_float rt PNone = Inl TypeError"
| "py_float rt (PBool b) = Inr (Finite (if b then 1 else 0))"
| "py_float rt (PInt n) = (case float_of_int rt n of None \<Rightarrow> Inl OverflowError | Some f \<Rightarrow> Inr f)"
| "py_float rt (PFloat f) = Inr f"
| "py_float rt (PStr s) = (case parse_float rt s of None \<Rightarrow> Inl ValueError | Some f \<Rightarrow> Inr f)"
| "py_float rt (PList vs) = Inl TypeError"
| "py_float rt (PDict kvs) = Inl TypeError"

text \<open>\<open>bool(v)\<close>: Python truthiness.\<close>

fun py_bool :: "pyval \<Rightarrow> bool" where
  "py_bool PNone = False"
| "py_bool (PBool b) = b"
| "py_bool (PInt n) = (n \<noteq> 0)"
| "py_bool (PFloat f) = (f \<noteq> Finite 0)"
| "py_bool (PStr s) = (s \<noteq> [])"
| "py_bool (PList vs) = (vs \<noteq> [])"
| "py_bool (PDict kvs) = (kvs \<noteq> [])"

text \<open>\<open>str(v)\<close>.\<close>

fun py_str :: "runtime \<Rightarrow> pyval \<Rightarrow> string" where
  "py_str rt (PStr s) = s"
| "py_str rt PNone = ''None''"
| "py_str rt (PBool b) = (if b then ''True'' else ''False'')"
| "py_str rt (PInt n) = str_int n"
| "py_str rt v = repr_of rt v"

text \<open>\<open>data.get(key, default)\<close>.\<close>

definition dict_get :: "(string \<times> pyval) list \<Rightarrow> string \<Rightarrow> pyval \<Rightarrow> pyval" where
  "dict_get d key dflt = (case map_of d key of None \<Rightarrow> dflt | Some v \<Rightarrow> v)"

subsection \<open>Colours\<close>

text \<open>
  A valid \<open>QColor\<close>. The constructor \<open>QColor(r, g, b, a)\<close> takes C ints: the binding
  raises \<open>OverflowError\<close> for a Python integer outside the 32-bit range, and Qt yields an
  invalid colour when a component is outside 0..255.
\<close>

record qcolor =
  red :: int
  green :: int
  blue :: int
  alpha :: int

definition fits_c_int :: "int \<Rightarrow> bool" where
  "fits_c_int n = (- 2147483648 \<le> n \<and> n \<le> 2147483647)"

definition in_byte :: "int \<Rightarrow> bool" where
  "in_byte n = (0 \<le> n \<and> n \<le> 255)"

definition QColor :: "int \<Rightarrow> int \<Rightarrow> int \<Rightarrow> int \<Rightarrow> error + qcolor option" where
  "QColor r g b a =
     (if \<not> (fits_c_int r \<and> fits_c_int g \<and> fits_c_int b \<and> fits_c_int a) then Inl OverflowError
      else if in_byte r \<and> in_byte g \<and> in_byte b \<and> in_byte a
        then Inr (Some \<lparr>red = r, green = g, blue = b, alpha = a\<rparr>)
      else Inr None)"

text \<open>The handler \<open>except (TypeError, ValueError)\<close>: these two are caught, others pass.\<close>

definition caught :: "error \<Rightarrow> bool" where
  "caught e = (e = TypeError \<or> e = ValueError)"

definition color_from_dict :: "runtime \<Rightarrow> pyval \<Rightarrow> qcolor \<Rightarrow> error + qcolor" where
  "color_from_dict rt data fallback =
     (case data of
        PDict d \<Rightarrow>
          (case py_int rt (dict_get d ''r'' (PInt (red fallback))) of
             Inl e \<Rightarrow> if caught e then Inr fallback else Inl e
           | Inr r \<Rightarrow>
          (case py_int rt (dict_get d ''g'' (PInt (green fallback))) of
             Inl e \<Rightarrow> if caught e then Inr fallback else Inl e
           | Inr g \<Rightarrow>
          (case py_int rt (dict_get d ''b'' (PInt (blue fallback))) of
             Inl e \<Rightarrow> if caught e then Inr fallback else Inl e
           | Inr b \<Rightarrow>
          (case py_int rt (dict_get d ''a'' (PInt (alpha fallback))) of
             Inl e \<Rightarrow> if caught e then Inr fallback else Inl e
           | Inr a \<Rightarrow>
          (case QColor r g b a of
             Inl e \<Rightarrow> Inl e
           | Inr None \<Rightarrow> Inr fallback
           | Inr (Some color) \<Rightarrow> Inr color)))))
      | _ \<Rightarrow> Inr fallback)"

subsection \<open>Configuration\<close>

record app_config =
  reminder_interval_ms :: int
  auto_hide_ms :: int
  animation_interval_ms :: int
  show_preview_on_launch :: bool
  preview_delay_ms :: int
  asset_directory :: string
  position :: string
  margin_x :: int
  margin_y :: int
  random_offset_ms :: int
  overlay_width :: int
  overlay_height :: int
  overlay_opacity :: pyfloat
  background_radius :: int
  gradient_top :: qcolor
  gradient_bottom :: qcolor
  border_color :: qcolor
  shadow_color :: qcolor
  title_text :: string
  title_font_size :: int
  title_color :: qcolor
  message_template :: string
  message_font_size :: int
  text_opacity :: pyfloat
  text_color :: qcolor
  countdown_enabled :: bool
  countdown_template :: string
  countdown_font_size :: int
  countdown_color :: qcolor
  animation_enabled :: bool
  entry_animation :: string
  monitor_id :: string
  autostart_enabled :: bool

text \<open>\<open>AppConfig()\<close>: the dataclass defaults.\<close>

definition AppConfig :: "runtime \<Rightarrow> app_config" where
  "AppConfig rt =
     \<lparr> reminder_interval_ms = 45 * 60 * 1000,
       auto_hide_ms = 15 * 1000,
       animation_interval_ms = 200,
       show_preview_on_launch = True,
       preview_delay_ms = 2000,
       asset_directory = STORAGE_ASSETS_DIR rt,
       position = ''bottom_right'',
       margin_x = 16,
       margin_y = 16,
       random_offset_ms = 0,
       overlay_width = 360,
       overlay_height = 180,
       overlay_opacity = Finite 1,
       background_radius = 24,
       gradient_top = \<lparr>red = 28, green = 116, blue = 235, alpha = 235\<rparr>,
       gradient_bottom = \<lparr>red = 80, green = 170, blue = 255, alpha = 235\<rparr>,
       border_color = \<lparr>red = 255, green = 255, blue = 255, alpha = 200\<rparr>,
       shadow_color = \<lparr>red = 0, green = 0, blue = 0, alpha = 90\<rparr>,
       title_text = ''Hydration break'',
       title_font_size = 22,
       title_color = \<lparr>red = 255, green = 255, blue = 255, alpha = 255\<rparr>,
       message_template = ''It's time to take a sip of water.'' @ [CHR 0x0A] @ ''Every {interval}'',
       message_font_size = 14,
       text_opacity = Finite (95 / 100),
       text_color = \<lparr>red = 235, green = 238, blue = 245, alpha = 255\<rparr>,
       countdown_enabled = True,
       countdown_template = ''Next reminder in {remaining}.'',
       countdown_font_size = 12,
       countdown_color = \<lparr>red = 255, green = 255, blue = 255, alpha = 255\<rparr>,
       animation_enabled = True,
       entry_animation = ''fade'',
       monitor_id = ''auto'',
       autostart_enabled = False \<rparr>"

text \<open>The local helpers of \<open>from_dict\<close>.\<close>

definition get_int :: "runtime \<Rightarrow> (string \<times> pyval) list \<Rightarrow> string \<Rightarrow> int \<Rightarrow> error + int" where
  "get_int rt data key dflt =
     (case py_int rt (dict_get data key (PInt dflt)) of
        Inl e \<Rightarrow> if caught e then Inr dflt else Inl e
      | Inr n \<Rightarrow> Inr n)"

definition get_float :: "runtime \<Rightarrow> (string \<times> pyval) list \<Rightarrow> string \<Rightarrow> pyfloat \<Rightarrow> error + pyfloat" where
  "get_float rt data key dflt =
     (case py_float rt (dict_get data key (PFloat dflt)) of
        Inl e \<Rightarrow> if caught e then Inr dflt else Inl e
      | Inr f \<Rightarrow> Inr f)"

text \<open>
  One assignment \<open>config.field = ...\<close> of \<open>from_dict\<close>: it reads the current value of
  the field as the default and stores the result, or raises.
\<close>

definition assign ::
  "('c \<Rightarrow> 'v) \<Rightarrow> (('v \<Rightarrow> 'v) \<Rightarrow> 'c \<Rightarrow> 'c) \<Rightarrow> ('v \<Rightarrow> error + 'v) \<Rightarrow> 'c \<Rightarrow> error + 'c" where
  "assign field field_update rhs c =
     (case rhs (field c) of Inl e \<Rightarrow> Inl e | Inr v \<Rightarrow> Inr (field_update (\<lambda>_. v) c))"

text \<open>Statements run in order; the first one that raises ends the run.\<close>

fun run_steps :: "('c \<Rightarrow> error + 'c) list \<Rightarrow> 'c \<Rightarrow> error + 'c" where
  "run_steps [] c = Inr c"
| "run_steps (f # fs) c = (case f c of Inl e \<Rightarrow> Inl e | Inr c' \<Rightarrow> run_steps fs c')"

definition from_dict :: "runtime \<Rightarrow> pyval \<Rightarrow> error + app_config" where
  "from_dict rt data =
     (let config = AppConfig rt in
      case data of
        PDict d \<Rightarrow>
          run_steps
            [ assign reminder_interval_ms reminder_interval_ms_update (get_int rt d ''reminder_interval_ms''),
              assign auto_hide_ms auto_hide_ms_update (get_int rt d ''auto_hide_ms''),
              assign animation_interval_ms animation_interval_ms_update (get_int rt d ''animation_interval_ms''),
              assign show_preview_on_launch show_preview_on_launch_update
                (\<lambda>dflt. Inr (py_bool (dict_get d ''show_preview_on_launch'' (PBool dflt)))),
              assign preview_delay_ms preview_delay_ms_update (get_int rt d ''preview_delay_ms''),
              assign position position_update
                (\<lambda>dflt. Inr (py_str rt (dict_get d ''position'' (PStr dflt)))),
              assign margin_x margin_x_update (get_int rt d ''margin_x''),
              assign margin_y margin_y_update (get_int rt d ''margin_y''),
              assign random_offset_ms random_offset_ms_update (get_int rt d ''random_offset_ms''),
              assign overlay_width overlay_width_update (get_int rt d ''overlay_width''),
              assign overlay_height overlay_height_update (get_int rt d ''overlay_height''),
              assign overlay_opacity overlay_opacity_update (get_float rt d ''overlay_opacity''),
              assign background_radius background_radius_update (get_int rt d ''background_radius''),
              assign gradient_top gradient_top_update
                (color_from_dict rt (dict_get d ''gradient_top'' PNone)),
              assign gradient_bottom gradient_bottom_update
                (color_from_dict rt (dict_get d ''gradient_bottom'' PNone)),
              assign border_color border_color_update
                (color_from_dict rt (dict_get d ''border_color'' PNone)),
              assign shadow_color shadow_color_update
                (color_from_dict rt (dict_get d ''shadow_color'' PNone)),
              assign title_text title_text_update
                (\<lambda>dflt. Inr (py_str rt (dict_get d ''title_text'' (PStr dflt)))),
              assign title_font_size title_font_size_update (get_int rt d ''title_font_size''),
              assign title_color title_color_update
                (color_from_dict rt (dict_get d ''title_color'' PNone)),
              assign message_template message_template_update
                (\<lambda>dflt. Inr (py_str rt (dict_get d ''message_template'' (PStr dflt)))),
              assign message_font_size message_font_size_update (get_int rt d ''message_font_size''),
              assign text_opacity text_opacity_update (get_float rt d ''text_opacity''),
              assign text_color text_color_update
                (color_from_dict rt (dict_get d ''text_color'' PNone)),
              assign countdown_enabled countdown_enabled_update
                (\<lambda>dflt. Inr (py_bool (dict_get d ''countdown_enabled'' (PBool dflt)))),
              assign countdown_template countdown_template_update
                (\<lambda>dflt. Inr (py_str rt (dict_get d ''countdown_template'' (PStr dflt)))),
              assign countdown_font_size countdown_font_size_update (get_int rt d ''countdown_font_size''),
              assign countdown_color countdown_color_update
                (color_from_dict rt (dict_get d ''countdown_color'' PNone)),
              assign animation_enabled animation_enabled_update
                (\<lambda>dflt. Inr (py_bool (dict_get d ''animation_enabled'' (PBool dflt)))),
              assign entry_animation entry_animation_update
                (\<lambda>dflt. Inr (py_str rt (dict_get d ''entry_animation'' (PStr dflt)))),
              assign monitor_id monitor_id_update
                (\<lambda>dflt. Inr (py_str rt (dict_get d ''monitor_id'' (PStr dflt)))),
              assign autostart_enabled autostart_enabled_update
                (\<lambda>dflt. Inr (py_bool (dict_get d ''autostart_enabled'' (PBool dflt)))),
              assign asset_directory asset_directory_update (\<lambda>_. Inr (STORAGE_ASSETS_DIR rt)) ]
            config
      | _ \<Rightarrow> Inr config)"

section \<open>Properties\<close>

subsection \<open>Duration formatting\<close>

lemma format_interval_cases:
  "format_interval ms =
     (let h = max 0 (ms div 60000) div 60;
          m = max 0 (ms div 60000) mod 60
      in if h = 0 \<and> m = 0 then ''less than a minute''
         else if m = 0 then str_int h @ '' hour'' @ (if h \<noteq> 1 then ''s'' else '''')
         else if h = 0 then str_int m @ '' minute'' @ (if m \<noteq> 1 then ''s'' else '''')
         else str_int h @ '' hour'' @ (if h \<noteq> 1 then ''s'' else '''') @ '' '' @
              str_int m @ '' minute'' @ (if m \<noteq> 1 then ''s'' else ''''))"
proof -
  define h where "h = max 0 (ms div 60000) div 60"
  define m where "m = max 0 (ms div 60000) mod 60"
  have unfold: "format_interval ms =
     (if (if m \<noteq> 0
          then (if h \<noteq> 0 then [] @ [str_int h @ '' hour'' @ (if h \<noteq> 1 then ''s'' else '''')] else [])
               @ [str_int m @ '' minute'' @ (if m \<noteq> 1 then ''s'' else '''')]
          else (if h \<noteq> 0 then [] @ [str_int h @ '' hour'' @ (if h \<noteq> 1 then ''s'' else '''')] else [])) = []
      then ''less than a minute''
      else join '' ''
          (if m \<noteq> 0
          then (if h \<noteq> 0 then [] @ [str_int h @ '' hour'' @ (if h \<noteq> 1 then ''s'' else '''')] else [])
               @ [str_int m @ '' minute'' @ (if m \<noteq> 1 then ''s'' else '''')]
          else (if h \<noteq> 0 then [] @ [str_int h @ '' hour'' @ (if h \<noteq> 1 then ''s'' else '''')] else [])))"
    unfolding format_interval_def Let_def h_def m_def by (rule refl)
  have goal: "format_interval ms =
     (if h = 0 \<and> m = 0 then ''less than a minute''
         else if m = 0 then str_int h @ '' hour'' @ (if h \<noteq> 1 then ''s'' else '''')
         else if h = 0 then str_int m @ '' minute'' @ (if m \<noteq> 1 then ''s'' else '''')
         else str_int h @ '' hour'' @ (if h \<noteq> 1 then ''s'' else '''') @ '' '' @
              str_int m @ '' minute'' @ (if m \<noteq> 1 then ''s'' else ''''))"
  proof (cases "h = 0")
    case h0: True
    show ?thesis
    proof (cases "m = 0")
      case True
      with h0 show ?thesis unfolding unfold by (simp only: simp_thms if_True if_False)
    next
      case False
      with h0 show ?thesis unfolding unfold
        by (simp only: simp_thms if_True if_False append_Nil join.simps list.simps)
    qed
  next
    case h1: False
    show ?thesis
    proof (cases "m = 0")
      case True
      with h1 show ?thesis unfolding unfold
        by (simp only: simp_thms if_True if_False append_Nil join.simps list.simps)
    next
      case False
      with h1 show ?thesis unfolding unfold
        by (simp only: simp_thms if_True if_False append_Nil append_Cons append_assoc join.simps list.simps)
    qed
  qed
  show ?thesis unfolding Let_def h_def [symmetric] m_def [symmetric] by (rule goal)
qed

lemma format_short_duration_cases:
  "format_short_duration ms =
     (let h = ms div 1000 div 3600;
          m = ms div 1000 mod 3600 div 60;
          s = ms div 1000 mod 3600 mod 60
      in if ms \<le> 0 then ''now''
         else if h \<noteq> 0 then str_int h @ ''h '' @ str_int m @ ''m''
         else if m \<noteq> 0 then str_int m @ ''m '' @ str_int s @ ''s''
         else str_int s @ ''s'')"
  unfolding format_short_duration_def Let_def
  apply (cases "ms \<le> 0")
   apply (simp only: if_True)
  apply (simp only: if_False)
  apply (cases "ms div 1000 div 3600 = 0")
   apply (cases "ms div 1000 mod 3600 div 60 = 0")
    apply (simp_all only: if_True if_False simp_thms append_Nil join.simps append_assoc append_Cons)
  done

text \<open>
  Claim C9. For every interval in milliseconds, \<open>format_interval\<close> renders the whole hours
  and the whole minutes of the interval, leaves out a component that is zero, and returns
  \<open>less than a minute\<close> when both are zero (a negative interval counts as zero minutes);
  2 700 000 ms renders as \<open>45 minutes\<close>.
\<close>

theorem format_interval_renders:
  "format_interval ms =
     (let h = max 0 (ms div 60000) div 60;
          m = max 0 (ms div 60000) mod 60
      in if h = 0 \<and> m = 0 then ''less than a minute''
         else if m = 0 then str_int h @ '' hour'' @ (if h \<noteq> 1 then ''s'' else '''')
         else if h = 0 then str_int m @ '' minute'' @ (if m \<noteq> 1 then ''s'' else '''')
         else str_int h @ '' hour'' @ (if h \<noteq> 1 then ''s'' else '''') @ '' '' @
              str_int m @ '' minute'' @ (if m \<noteq> 1 then ''s'' else ''''))
   \<and> format_interval 2700000 = ''45 minutes''"
proof
  show "format_interval 2700000 = ''45 minutes''"
    by code_simp
qed (rule format_interval_cases)

theorem format_interval_renders_witness:
  "format_interval 5400000 = ''1 hour 30 minutes''"
  using format_interval_renders [of 5400000]
  by (simp add: str_int_def str_nat.simps digit_char_def)

text \<open>
  Claim C6. For every remaining time in milliseconds, \<open>format_short_duration\<close> returns
  \<open>now\<close> for zero or less; otherwise it shows the hours only when they are not zero, the
  minutes whenever the hours are shown (and also when the minutes are not zero), and the
  seconds exactly when the hours are zero. 3 661 000 ms renders as \<open>1h 1m\<close> and 0 ms as
  \<open>now\<close>.
\<close>

theorem format_short_duration_renders:
  "format_short_duration ms =
     (let h = ms div 1000 div 3600;
          m = ms div 1000 mod 3600 div 60;
          s = ms div 1000 mod 3600 mod 60
      in if ms \<le> 0 then ''now''
         else if h \<noteq> 0 then str_int h @ ''h '' @ str_int m @ ''m''
         else if m \<noteq> 0 then str_int m @ ''m '' @ str_int s @ ''s''
         else str_int s @ ''s'')
   \<and> format_short_duration 3661000 = ''1h 1m''
   \<and> format_short_duration 0 = ''now''"
proof (intro conjI)
  show "format_short_duration 3661000 = ''1h 1m''"
    by code_simp
  show "format_short_duration 0 = ''now''"
    by (simp add: format_short_duration_def)
qed (rule format_short_duration_cases)

theorem format_short_duration_renders_witness:
  "format_short_duration 125000 = ''2m 5s''"
  using format_short_duration_renders [of 125000]
  by (simp add: str_int_def str_nat.simps digit_char_def)

end
